theory Spec2Isabelle
  imports Main "HOL-Library.Word"
begin

unbundle bit_operations_syntax

section \<open>The local lock manager (dlm/llm.go)\<close>

subsection \<open>Data\<close>

text \<open>
  Errors carry a kind of the \<open>blunder\<close> package and a message; an error made by
  \<open>fmt.Errorf\<close> or \<open>errors.New\<close> alone has no kind.
\<close>

datatype FsError =
    NotFoundError | PermDeniedError | NotPermError | TryAgainError | StreamNotFound
  | NotDirError | IsDirError | NotFileError | NotEmptyError | LinkDirError
  | NameTooLongError | NoDataError | NotSupportedError | BadMountVolumeError
  | FileExistsError | IOError | InvalidArgError | InvalidFileModeError
  | InvalidGroupIDError | InvalidUserIDError | TooManySymlinksError

datatype error = Plain string | Blunder FsError string

datatype panic =
    LockNotFoundInMap | CallerNotInOwners | OwnersNegative
  | NilElement | IndexOutOfRange

text \<open>
  A \<open>CallerID\<close> is a pointer (\<open>*string\<close>) compared by address; here it is the address.
  \<open>lockState\<close> is the \<open>iota\<close> enumeration of the source, in its order.
\<close>

type_synonym CallerID = nat

datatype lockState = nilType | shared | exclusive | stale

text \<open>
  A Go slice is a header (pointer, length, capacity) over a backing array. \<open>arr\<close> is the
  backing array from the slice's first element on (its length is the capacity), \<open>len\<close> the
  length of the header. Two headers over one array see each other's writes to the array,
  never each other's length.
\<close>

record 'a slice =
  arr :: "'a list"
  len :: nat

definition cap :: "'a slice \<Rightarrow> nat" where
  "cap s = length (arr s)"

definition elems :: "'a slice \<Rightarrow> 'a list" where
  "elems s = take (len s) (arr s)"

definition nil_slice :: "'a slice" where
  "nil_slice = \<lparr>arr = [], len = 0\<rparr>"

text \<open>
  \<open>append(s, ys...)\<close>: when the capacity suffices the elements are written into the backing
  array behind the slice's length (the source values are read first, as \<open>memmove\<close> does);
  otherwise a new array is allocated, zero-filled behind the new length. The capacity of a
  new array is the runtime's choice (here the doubling of small slices); only the contents
  up to the length can be observed.
\<close>

definition fits :: "'a slice \<Rightarrow> 'a list \<Rightarrow> bool" where
  "fits s ys = (len s + length ys \<le> cap s)"

definition newcap :: "nat \<Rightarrow> nat \<Rightarrow> nat" where
  "newcap oldcap needed = max needed (2 * oldcap)"

definition append_go :: "('a::zero) slice \<Rightarrow> 'a list \<Rightarrow> 'a slice" where
  "append_go s ys =
     (if fits s ys
      then \<lparr>arr = take (len s) (arr s) @ ys @ drop (len s + length ys) (arr s),
            len = len s + length ys\<rparr>
      else \<lparr>arr = elems s @ ys
                   @ replicate (newcap (cap s) (len s + length ys) - (len s + length ys)) 0,
            len = len s + length ys\<rparr>)"

record localLockRequest =
  requestedState :: lockState
  wakeUp :: bool
  LockCallerID :: CallerID

record localLockTrack =
  lockId :: string
  owners :: "64 word"
  waiters :: "64 word"
  state :: lockState
  listOfOwners :: "CallerID slice"
  waitReqQ :: "localLockRequest list"

record RWLockStruct =
  LockID :: string
  RWLockCallerID :: CallerID

datatype LockHeldType = READLOCK | WRITELOCK | ANYLOCK

text \<open>The process-wide \<open>globals.localLockMap\<close>.\<close>

type_synonym localLockMap = "string \<rightharpoonup> localLockTrack"

subsection \<open>Owner list\<close>

text \<open>The position of the first element equal to \<open>c\<close>, as the \<open>range\<close> loops find it.\<close>

fun find_pos :: "CallerID list \<Rightarrow> CallerID \<Rightarrow> nat option" where
  "find_pos [] c = None"
| "find_pos (x # xs) c = (if x = c then Some 0 else map_option Suc (find_pos xs c))"

text \<open>
  \<open>removeFromListOfOwners\<close> receives the slice header by value. At the first position \<open>i\<close>
  holding \<open>callerID\<close> it assigns \<open>append(listOfOwners[:i], listOfOwners[i+1:]...)\<close> to its
  own parameter and returns; when there is none it panics (\<open>None\<close>). The function has no
  result: what the caller can see afterwards is the backing array, which is the value here.
  The shortened header stays in the callee.
\<close>

definition removeFromListOfOwners :: "CallerID slice \<Rightarrow> CallerID \<Rightarrow> CallerID list option" where
  "removeFromListOfOwners l callerID =
     (case find_pos (elems l) callerID of
        None \<Rightarrow> None
      | Some i \<Rightarrow>
          (let dst = l\<lparr>len := i\<rparr>;
               src = drop (i + 1) (elems l);
               local = append_go dst src
           in Some (if fits dst src then arr local else arr l)))"

definition callerInListOfOwners :: "CallerID slice \<Rightarrow> CallerID \<Rightarrow> bool" where
  "callerInListOfOwners l callerID = (find_pos (elems l) callerID \<noteq> None)"

definition isLockHeld :: "localLockMap \<Rightarrow> string \<Rightarrow> CallerID \<Rightarrow> LockHeldType \<Rightarrow> bool" where
  "isLockHeld m lockID callerID lockHeldType =
     (case m lockID of
        None \<Rightarrow> False
      | Some track \<Rightarrow>
          (case lockHeldType of
             READLOCK \<Rightarrow> state track = shared \<and> callerInListOfOwners (listOfOwners track) callerID
           | WRITELOCK \<Rightarrow> state track = exclusive \<and> callerInListOfOwners (listOfOwners track) callerID
           | ANYLOCK \<Rightarrow> (state track = exclusive \<or> state track = shared)
                          \<and> callerInListOfOwners (listOfOwners track) callerID))"

subsection \<open>The grant pass\<close>

text \<open>
  \<open>grantAndSignal\<close> updates the track and wakes the request. The request lives in the
  waiting thread; its new value (\<open>wakeUp = true\<close>, condition broadcast) is returned beside
  the track.
\<close>

definition grantAndSignal ::
  "localLockTrack \<Rightarrow> localLockRequest \<Rightarrow> localLockTrack \<times> localLockRequest" where
  "grantAndSignal track localQRequest =
     (track\<lparr>state := requestedState localQRequest,
            listOfOwners := append_go (listOfOwners track) [LockCallerID localQRequest],
            owners := owners track + 1\<rparr>,
      localQRequest\<lparr>wakeUp := True\<rparr>)"

text \<open>
  The \<open>for\<close> loop of \<open>processLocalQ\<close>. The result is the track and the requests signalled,
  in the order of their broadcasts. The queue holds \<open>*localLockRequest\<close> only, so the type
  assertion of the source cannot fail.
\<close>

function processLoop :: "localLockTrack \<Rightarrow> localLockTrack \<times> localLockRequest list" where
  "processLoop track =
     (case waitReqQ track of
        [] \<Rightarrow> (track, [])
      | localQRequest # rest \<Rightarrow>
          (let track1 = track\<lparr>waitReqQ := rest\<rparr> in
           if requestedState localQRequest = exclusive \<and> state track1 = stale
           then (case grantAndSignal track1 localQRequest of (t, r) \<Rightarrow> (t, [r]))
           else if requestedState localQRequest = exclusive
           then (track1\<lparr>waitReqQ := localQRequest # waitReqQ track1\<rparr>, [])
           else (case grantAndSignal track1 localQRequest of
                   (t, r) \<Rightarrow> (case processLoop t of (t', rs) \<Rightarrow> (t', r # rs)))))"
  by pat_completeness auto
termination
  by (relation "measure (\<lambda>t. length (waitReqQ t))") (auto simp: grantAndSignal_def)

definition processLocalQ :: "localLockTrack \<Rightarrow> localLockTrack \<times> localLockRequest list" where
  "processLocalQ track =
     (if length (waitReqQ track) = 0 then (track, [])
      else if state track = exclusive then (track, [])
      else processLoop track)"

subsection \<open>Lock and unlock\<close>

text \<open>
  \<open>commonLock\<close> runs under the track's mutex up to \<open>Cond.Wait\<close>, which releases the mutex
  until another thread's grant pass has set \<open>wakeUp\<close>, and again from there to its return.
  The two critical sections are \<open>commonLock_enqueue\<close> and \<open>commonLock_wakeup\<close>; the caller
  goes on to the second one once its request is among the signalled ones.
\<close>

definition new_track :: "string \<Rightarrow> localLockTrack" where
  "new_track lid =
     \<lparr>lockId = lid, owners = 0, waiters = 0, state = stale,
      listOfOwners = nil_slice, waitReqQ = []\<rparr>"

definition commonLock_enqueue ::
  "localLockMap \<Rightarrow> RWLockStruct \<Rightarrow> lockState \<Rightarrow> bool
     \<Rightarrow> localLockMap \<times> (error + localLockRequest list)" where
  "commonLock_enqueue m l reqState try =
     (let track = (case m (LockID l) of None \<Rightarrow> new_track (LockID l) | Some t \<Rightarrow> t);
          m1 = m(LockID l \<mapsto> track)
      in if try \<and> reqState = exclusive \<and> state track \<noteq> stale
         then (m1, Inl (Blunder TryAgainError ''Lock is busy - try again!''))
         else if try \<and> state track = exclusive
         then (m1, Inl (Blunder TryAgainError ''Lock is busy - try again!''))
         else
           (let localRequest = \<lparr>requestedState = reqState, wakeUp = False,
                                 LockCallerID = RWLockCallerID l\<rparr>;
                track1 = track\<lparr>waitReqQ := waitReqQ track @ [localRequest]\<rparr>;
                track2 = track1\<lparr>waiters := waiters track1 + 1\<rparr>
            in case processLocalQ track2 of
                 (track3, signalled) \<Rightarrow> (m1(LockID l \<mapsto> track3), Inr signalled)))"

definition commonLock_wakeup :: "localLockMap \<Rightarrow> RWLockStruct \<Rightarrow> localLockMap" where
  "commonLock_wakeup m l =
     (case m (LockID l) of
        None \<Rightarrow> m
      | Some track \<Rightarrow> m(LockID l \<mapsto> track\<lparr>waiters := waiters track - 1\<rparr>))"

text \<open>
  \<open>unlock\<close>. The result is the map, the track the call worked on (which the map no longer
  holds when the call deleted it) and the requests signalled; \<open>Inl\<close> is a panic.
  \<open>track.owners\<close> is a \<open>uint64\<close>: the decrement wraps and \<open><\<close> is the unsigned order.
\<close>

definition unlock ::
  "localLockMap \<Rightarrow> RWLockStruct
     \<Rightarrow> panic + (localLockMap \<times> localLockTrack \<times> localLockRequest list)" where
  "unlock m l =
     (case m (LockID l) of
        None \<Rightarrow> Inl LockNotFoundInMap
      | Some track \<Rightarrow>
          (let deleted = (owners track = 1 \<and> waiters track = 0);
               m1 = (if deleted then m(LockID l := None) else m);
               track1 = track\<lparr>owners := owners track - 1\<rparr>
           in case removeFromListOfOwners (listOfOwners track1) (RWLockCallerID l) of
                None \<Rightarrow> Inl CallerNotInOwners
              | Some a \<Rightarrow>
                  (let track2 = track1\<lparr>listOfOwners := (listOfOwners track1)\<lparr>arr := a\<rparr>\<rparr> in
                   case (if owners track2 = 0 then Inr (track2\<lparr>state := stale\<rparr>)
                         else if owners track2 < 0 then Inl OwnersNegative
                         else Inr track2) of
                     Inl p \<Rightarrow> Inl p
                   | Inr track3 \<Rightarrow>
                       (case processLocalQ track3 of
                          (track4, signalled) \<Rightarrow>
                            Inr (if deleted then m1 else m1(LockID l \<mapsto> track4),
                                 track4, signalled)))))"

text \<open>
  A history of calls on the lock manager: each operation is one critical section, in the
  order in which the threads entered them.
\<close>

datatype lockOp =
    Request CallerID lockState bool
  | Wakeup CallerID
  | Release CallerID

definition handle :: "string \<Rightarrow> CallerID \<Rightarrow> RWLockStruct" where
  "handle k c = \<lparr>LockID = k, RWLockCallerID = c\<rparr>"

fun lockStep :: "string \<Rightarrow> localLockMap \<Rightarrow> lockOp \<Rightarrow> panic + localLockMap" where
  "lockStep k m (Request c st try) = Inr (fst (commonLock_enqueue m (handle k c) st try))"
| "lockStep k m (Wakeup c) = Inr (commonLock_wakeup m (handle k c))"
| "lockStep k m (Release c) =
     (case unlock m (handle k c) of Inl p \<Rightarrow> Inl p | Inr (m', t, sig) \<Rightarrow> Inr m')"

fun lockRun :: "string \<Rightarrow> localLockMap \<Rightarrow> lockOp list \<Rightarrow> panic + localLockMap" where
  "lockRun k m [] = Inr m"
| "lockRun k m (x # xs) =
     (case lockStep k m x of Inl p \<Rightarrow> Inl p | Inr m' \<Rightarrow> lockRun k m' xs)"

section \<open>The filesystem layer (fs/api_internal.go)\<close>

subsection \<open>Data and collaborators\<close>

type_synonym InodeNumber = "64 word"
type_synonym InodeUserID = "32 word"
type_synonym InodeGroupID = "32 word"
type_synonym InodeMode = "32 word"
type_synonym bytes = "8 word list"

datatype InodeType = DirType | FileType | SymlinkType

text \<open>
  Modelled from the spec: the types \<open>inode.MetadataStruct\<close>, \<open>inode.CoalesceElement\<close> and
  \<open>fs.Stat\<close> are declared outside the files at hand; the records hold the fields the
  functions below read or write (times as nanoseconds since the epoch).
\<close>

record MetadataStruct =
  MetaInodeType :: InodeType
  ModificationTime :: "64 word"
  NumWrites :: "64 word"

record CoalesceElement =
  ContainingDirectoryInodeNumber :: InodeNumber
  ElementInodeNumber :: InodeNumber
  ElementName :: string

record Stat =
  StatFType :: InodeType

text \<open>
  Every call that leaves the function under study is recorded: calls of the inode
  collaborator (\<open>inode.VolumeHandle\<close>), of the lock handles and helpers of package \<open>dlm\<close> and
  \<open>fs\<close> that live in other files, of \<open>logger\<close> and of \<open>stats\<close>.
\<close>

datatype call =
    C_Access InodeNumber InodeUserID InodeGroupID "InodeGroupID list" InodeMode
  | C_CreateFile InodeMode InodeUserID InodeGroupID
  | C_CreateDir InodeMode InodeUserID InodeGroupID
  | C_Destroy InodeNumber
  | C_Link InodeNumber string InodeNumber
  | C_Unlink InodeNumber string
  | C_Lookup InodeNumber string
  | C_Move InodeNumber string InodeNumber string
  | C_GetType InodeNumber
  | C_GetSymlink InodeNumber
  | C_GetStream InodeNumber string
  | C_PutStream InodeNumber string bytes
  | C_GetMetadata InodeNumber
  | C_NumDirEntries InodeNumber
  | C_Wrote InodeNumber "64 word" string "64 word" "64 word" bool
  | C_Coalesce InodeNumber string "CoalesceElement list"
  | C_Validate InodeNumber
  | C_initInodeLock InodeNumber "CallerID option"
  | C_getWriteLock InodeNumber "CallerID option"
  | C_resolvePathForWrite string "CallerID option"
  | C_getstatHelper InodeNumber CallerID
  | C_GenerateCallerID
  | C_ReadLock RWLockStruct
  | C_WriteLock RWLockStruct
  | C_TryWriteLock RWLockStruct
  | C_Unlock RWLockStruct
  | C_IsWriteHeld RWLockStruct
  | C_GetCallerID RWLockStruct
  | C_stats string
  | C_logger string

text \<open>
  The collaborators. Each answer may depend on everything that was called before (the first
  argument is the record of calls so far), so a collaborator with state of its own is
  covered. The constants of package \<open>inode\<close> and the function \<open>path.Clean\<close> of the standard
  library are parameters as well.
\<close>

record env =
  RootDirInodeNumber :: InodeNumber
  F_OK :: InodeMode
  R_OK :: InodeMode
  W_OK :: InodeMode
  X_OK :: InodeMode
  PosixModePerm :: InodeMode
  path_Clean :: "string \<Rightarrow> string"
  Access_r :: "call list \<Rightarrow> InodeNumber \<Rightarrow> InodeUserID \<Rightarrow> InodeGroupID
                 \<Rightarrow> InodeGroupID list \<Rightarrow> InodeMode \<Rightarrow> bool"
  CreateFile_r :: "call list \<Rightarrow> InodeMode \<Rightarrow> InodeUserID \<Rightarrow> InodeGroupID
                 \<Rightarrow> error + InodeNumber"
  CreateDir_r :: "call list \<Rightarrow> InodeMode \<Rightarrow> InodeUserID \<Rightarrow> InodeGroupID
                 \<Rightarrow> error + InodeNumber"
  Destroy_r :: "call list \<Rightarrow> InodeNumber \<Rightarrow> error option"
  Link_r :: "call list \<Rightarrow> InodeNumber \<Rightarrow> string \<Rightarrow> InodeNumber \<Rightarrow> error option"
  Unlink_r :: "call list \<Rightarrow> InodeNumber \<Rightarrow> string \<Rightarrow> error option"
  Lookup_r :: "call list \<Rightarrow> InodeNumber \<Rightarrow> string \<Rightarrow> error + InodeNumber"
  Move_r :: "call list \<Rightarrow> InodeNumber \<Rightarrow> string \<Rightarrow> InodeNumber \<Rightarrow> string \<Rightarrow> error option"
  GetType_r :: "call list \<Rightarrow> InodeNumber \<Rightarrow> error + InodeType"
  GetSymlink_r :: "call list \<Rightarrow> InodeNumber \<Rightarrow> error + string"
  GetStream_r :: "call list \<Rightarrow> InodeNumber \<Rightarrow> string \<Rightarrow> error + bytes"
  PutStream_r :: "call list \<Rightarrow> InodeNumber \<Rightarrow> string \<Rightarrow> bytes \<Rightarrow> error option"
  GetMetadata_r :: "call list \<Rightarrow> InodeNumber \<Rightarrow> error + MetadataStruct"
  NumDirEntries_r :: "call list \<Rightarrow> InodeNumber \<Rightarrow> error + 64 word"
  Wrote_r :: "call list \<Rightarrow> InodeNumber \<Rightarrow> 64 word \<Rightarrow> string \<Rightarrow> 64 word \<Rightarrow> 64 word
                 \<Rightarrow> bool \<Rightarrow> error option"
  Coalesce_r :: "call list \<Rightarrow> InodeNumber \<Rightarrow> string \<Rightarrow> CoalesceElement list
                 \<Rightarrow> (InodeNumber \<times> 64 word \<times> 64 word) \<times> error option"
  Validate_r :: "call list \<Rightarrow> InodeNumber \<Rightarrow> error option"
  initInodeLock_r :: "call list \<Rightarrow> InodeNumber \<Rightarrow> CallerID option \<Rightarrow> error + RWLockStruct"
  getWriteLock_r :: "call list \<Rightarrow> InodeNumber \<Rightarrow> CallerID option \<Rightarrow> error + RWLockStruct"
  resolvePathForWrite_r :: "call list \<Rightarrow> string \<Rightarrow> CallerID option
                 \<Rightarrow> error + (InodeNumber \<times> InodeType \<times> RWLockStruct option)"
  getstatHelper_r :: "call list \<Rightarrow> InodeNumber \<Rightarrow> CallerID \<Rightarrow> error + Stat"
  GenerateCallerID_r :: "call list \<Rightarrow> CallerID"
  ReadLock_r :: "call list \<Rightarrow> RWLockStruct \<Rightarrow> error option"
  WriteLock_r :: "call list \<Rightarrow> RWLockStruct \<Rightarrow> error option"
  TryWriteLock_r :: "call list \<Rightarrow> RWLockStruct \<Rightarrow> error option"
  IsWriteHeld_r :: "call list \<Rightarrow> RWLockStruct \<Rightarrow> bool"

text \<open>A call: the collaborator's answer and the record with the call added.\<close>

definition do_Access where
  "do_Access e h i u g gs m = (Access_r e h i u g gs m, h @ [C_Access i u g gs m])"
definition do_CreateFile where
  "do_CreateFile e h m u g = (CreateFile_r e h m u g, h @ [C_CreateFile m u g])"
definition do_CreateDir where
  "do_CreateDir e h m u g = (CreateDir_r e h m u g, h @ [C_CreateDir m u g])"
definition do_Destroy where
  "do_Destroy e h i = (Destroy_r e h i, h @ [C_Destroy i])"
definition do_Link where
  "do_Link e h d n i = (Link_r e h d n i, h @ [C_Link d n i])"
definition do_Unlink where
  "do_Unlink e h d n = (Unlink_r e h d n, h @ [C_Unlink d n])"
definition do_Lookup where
  "do_Lookup e h d n = (Lookup_r e h d n, h @ [C_Lookup d n])"
definition do_Move where
  "do_Move e h d n d' n' = (Move_r e h d n d' n', h @ [C_Move d n d' n'])"
definition do_GetType where
  "do_GetType e h i = (GetType_r e h i, h @ [C_GetType i])"
definition do_GetSymlink where
  "do_GetSymlink e h i = (GetSymlink_r e h i, h @ [C_GetSymlink i])"
definition do_GetStream where
  "do_GetStream e h i n = (GetStream_r e h i n, h @ [C_GetStream i n])"
definition do_PutStream where
  "do_PutStream e h i n b = (PutStream_r e h i n b, h @ [C_PutStream i n b])"
definition do_GetMetadata where
  "do_GetMetadata e h i = (GetMetadata_r e h i, h @ [C_GetMetadata i])"
definition do_NumDirEntries where
  "do_NumDirEntries e h i = (NumDirEntries_r e h i, h @ [C_NumDirEntries i])"
definition do_Wrote where
  "do_Wrote e h i fo p po l a = (Wrote_r e h i fo p po l a, h @ [C_Wrote i fo p po l a])"
definition do_Coalesce where
  "do_Coalesce e h d n es = (Coalesce_r e h d n es, h @ [C_Coalesce d n es])"
definition do_initInodeLock where
  "do_initInodeLock e h i c = (initInodeLock_r e h i c, h @ [C_initInodeLock i c])"
definition do_getWriteLock where
  "do_getWriteLock e h i c = (getWriteLock_r e h i c, h @ [C_getWriteLock i c])"
definition do_resolvePathForWrite where
  "do_resolvePathForWrite e h p c = (resolvePathForWrite_r e h p c, h @ [C_resolvePathForWrite p c])"
definition do_getstatHelper where
  "do_getstatHelper e h i c = (getstatHelper_r e h i c, h @ [C_getstatHelper i c])"
definition do_GenerateCallerID where
  "do_GenerateCallerID e h = (GenerateCallerID_r e h, h @ [C_GenerateCallerID])"
definition do_ReadLock where
  "do_ReadLock e h l = (ReadLock_r e h l, h @ [C_ReadLock l])"
definition do_WriteLock where
  "do_WriteLock e h l = (WriteLock_r e h l, h @ [C_WriteLock l])"
definition do_TryWriteLock where
  "do_TryWriteLock e h l = (TryWriteLock_r e h l, h @ [C_TryWriteLock l])"
definition do_IsWriteHeld where
  "do_IsWriteHeld e h l = (IsWriteHeld_r e h l, h @ [C_IsWriteHeld l])"
definition do_Unlock :: "call list \<Rightarrow> RWLockStruct \<Rightarrow> call list" where
  "do_Unlock h l = h @ [C_Unlock l]"

lemmas do_defs =
  do_Access_def do_CreateFile_def do_CreateDir_def do_Destroy_def do_Link_def do_Unlink_def
  do_Lookup_def do_Move_def do_GetType_def do_GetSymlink_def do_GetStream_def
  do_PutStream_def do_GetMetadata_def do_NumDirEntries_def do_Wrote_def do_Coalesce_def
  do_initInodeLock_def do_getWriteLock_def do_resolvePathForWrite_def do_getstatHelper_def
  do_GenerateCallerID_def do_ReadLock_def do_WriteLock_def do_TryWriteLock_def
  do_IsWriteHeld_def do_Unlock_def

text \<open>
  Modelled from the spec: package \<open>blunder\<close> is outside the files at hand. An error has
  the kind it was made with (section 7); \<open>Is\<close>, \<open>IsNot\<close> and \<open>Errno\<close> compare that kind, and
  no error at all is success.
\<close>

fun errKind :: "error option \<Rightarrow> FsError option" where
  "errKind None = None"
| "errKind (Some (Plain s)) = None"
| "errKind (Some (Blunder k s)) = Some k"

definition blunder_Is :: "error option \<Rightarrow> FsError \<Rightarrow> bool" where
  "blunder_Is err k = (errKind err = Some k)"

definition blunder_IsNot :: "error option \<Rightarrow> FsError \<Rightarrow> bool" where
  "blunder_IsNot err k = (errKind err \<noteq> Some k)"

definition blunder_IsNotSuccess :: "error option \<Rightarrow> bool" where
  "blunder_IsNotSuccess err = (err \<noteq> None)"

text \<open>Modelled from the spec: \<open>FileNameMax\<close> and the stream name are constants of \<open>fs/api.go\<close>.\<close>

definition FileNameMax :: nat where
  "FileNameMax = 255"

definition MiddlewareStream :: string where
  "MiddlewareStream = ''middleware''"

subsection \<open>Validate\<close>

text \<open>
  \<open>Validate\<close> is a method of \<open>*mountStruct\<close>, and the selector \<open>mS.Validate\<close> in its body
  names that method (a method declared on the type itself shadows one promoted from the
  embedded \<open>inode.VolumeHandle\<close>). The collaborator's \<open>Validate_r\<close> is never reached.
  The value \<open>None\<close> is a call that does not return.
\<close>

partial_function (option) Validate ::
  "env \<Rightarrow> call list \<Rightarrow> InodeNumber \<Rightarrow> (error option \<times> call list) option" where
  "Validate e h inodeNumber =
     Option.bind (Validate e h inodeNumber)
       (\<lambda>(err, h1). if err \<noteq> None then Some (err, h1)
                    else Some (None, h1 @ [C_stats ''FsValidateOps'']))"

subsection \<open>Create\<close>

definition validateBaseName :: "call list \<Rightarrow> string \<Rightarrow> error option \<times> call list" where
  "validateBaseName h baseName =
     (let baseLen = length baseName in
      if baseLen > FileNameMax
      then (Some (Blunder NameTooLongError ''basename is too long''),
            h @ [C_logger ''ErrorWithError''])
      else (None, h @ [C_stats ''FsBasenameValidateOps'']))"

text \<open>
  The block \<open>destroyErr := mS.Destroy(n); if destroyErr != nil { logger.WarnfWithError(...) }\<close>
  that \<open>Create\<close> repeats on each of its failure paths.
\<close>

definition destroy_and_warn :: "env \<Rightarrow> call list \<Rightarrow> InodeNumber \<Rightarrow> call list" where
  "destroy_and_warn e h fileInodeNumber =
     (case do_Destroy e h fileInodeNumber of
        (destroyErr, h1) \<Rightarrow>
          if destroyErr \<noteq> None then h1 @ [C_logger ''WarnfWithError''] else h1)"

text \<open>
  \<open>Create\<close> returns \<open>(fileInodeNumber, err)\<close>. The deferred \<open>dirInodeLock.Unlock()\<close> runs on
  every return behind the \<open>defer\<close> statement.
\<close>

definition Create ::
  "env \<Rightarrow> call list \<Rightarrow> InodeUserID \<Rightarrow> InodeGroupID \<Rightarrow> InodeGroupID list \<Rightarrow> InodeNumber
     \<Rightarrow> string \<Rightarrow> InodeMode \<Rightarrow> (InodeNumber \<times> error option) \<times> call list" where
  "Create e h userID groupID otherGroupIDs dirInodeNumber basename filePerm =
     (case validateBaseName h basename of
        (Some err, h1) \<Rightarrow> ((0, Some err), h1)
      | (None, h1) \<Rightarrow>
     (case do_CreateFile e h1 filePerm userID groupID of
        (Inl err, h2) \<Rightarrow> ((0, Some err), h2)
      | (Inr fileInodeNumber, h2) \<Rightarrow>
     (case do_initInodeLock e h2 dirInodeNumber None of
        (Inl err, h3) \<Rightarrow> ((0, Some err), destroy_and_warn e h3 fileInodeNumber)
      | (Inr dirInodeLock, h3) \<Rightarrow>
     (case do_WriteLock e h3 dirInodeLock of
        (Some err, h4) \<Rightarrow> ((0, Some err), destroy_and_warn e h4 fileInodeNumber)
      | (None, h4) \<Rightarrow>
     (case do_Access e h4 dirInodeNumber userID groupID otherGroupIDs (F_OK e) of
        (False, h5) \<Rightarrow>
          ((0, Some (Blunder NotFoundError ''ENOENT'')),
           do_Unlock (destroy_and_warn e h5 fileInodeNumber) dirInodeLock)
      | (True, h5) \<Rightarrow>
     (case do_Access e h5 dirInodeNumber userID groupID otherGroupIDs (W_OK e OR X_OK e) of
        (False, h6) \<Rightarrow>
          ((0, Some (Blunder PermDeniedError ''EACCES'')),
           do_Unlock (destroy_and_warn e h6 fileInodeNumber) dirInodeLock)
      | (True, h6) \<Rightarrow>
     (case do_Link e h6 dirInodeNumber basename fileInodeNumber of
        (Some err, h7) \<Rightarrow>
          ((0, Some err), do_Unlock (destroy_and_warn e h7 fileInodeNumber) dirInodeLock)
      | (None, h7) \<Rightarrow>
          ((fileInodeNumber, None),
           do_Unlock (h7 @ [C_stats ''FsCreateOps'']) dirInodeLock))))))))"

text \<open>
  The specification's account of a failing \<open>Create\<close>, for the comparison with the source:
  the steps behind the creation of the inode, in order, are the initialisation of the lock
  of the directory, its acquisition, the \<open>F_OK\<close> check, the \<open>W_OK|X_OK\<close> check and the link;
  the value is the error of the first step that fails, \<open>None\<close> when none does. \<open>h2\<close> is the
  record of calls when the inode \<open>f\<close> has been created.
\<close>

definition spec_Create_failing_step ::
  "env \<Rightarrow> call list \<Rightarrow> InodeUserID \<Rightarrow> InodeGroupID \<Rightarrow> InodeGroupID list \<Rightarrow> InodeNumber
     \<Rightarrow> string \<Rightarrow> InodeNumber \<Rightarrow> error option" where
  "spec_Create_failing_step e h2 userID groupID otherGroupIDs dirInodeNumber basename f =
     (case initInodeLock_r e h2 dirInodeNumber None of
        Inl err \<Rightarrow> Some err
      | Inr lock \<Rightarrow>
          (let h3 = h2 @ [C_initInodeLock dirInodeNumber None] in
           case WriteLock_r e h3 lock of
             Some err \<Rightarrow> Some err
           | None \<Rightarrow>
               (let h4 = h3 @ [C_WriteLock lock];
                    h5 = h4 @ [C_Access dirInodeNumber userID groupID otherGroupIDs (F_OK e)];
                    h6 = h5 @ [C_Access dirInodeNumber userID groupID otherGroupIDs
                                 (W_OK e OR X_OK e)]
                in if \<not> Access_r e h4 dirInodeNumber userID groupID otherGroupIDs (F_OK e)
                   then Some (Blunder NotFoundError ''ENOENT'')
                   else if \<not> Access_r e h5 dirInodeNumber userID groupID otherGroupIDs
                               (W_OK e OR X_OK e)
                   then Some (Blunder PermDeniedError ''EACCES'')
                   else Link_r e h6 dirInodeNumber basename f)))"

subsection \<open>Lookup\<close>

text \<open>The result of \<open>dirInodeLock.ReadLock()\<close> is dropped by the source.\<close>

definition Lookup ::
  "env \<Rightarrow> call list \<Rightarrow> InodeUserID \<Rightarrow> InodeGroupID \<Rightarrow> InodeGroupID list \<Rightarrow> InodeNumber
     \<Rightarrow> string \<Rightarrow> (InodeNumber \<times> error option) \<times> call list" where
  "Lookup e h userID groupID otherGroupIDs dirInodeNumber basename =
     (case do_initInodeLock e h dirInodeNumber None of
        (Inl err, h1) \<Rightarrow> ((0, Some err), h1)
      | (Inr dirInodeLock, h1) \<Rightarrow>
     (case do_ReadLock e h1 dirInodeLock of
        (_, h2) \<Rightarrow>
     (case do_Access e h2 dirInodeNumber userID groupID otherGroupIDs (F_OK e) of
        (False, h3) \<Rightarrow>
          ((0, Some (Blunder NotFoundError ''ENOENT'')), do_Unlock h3 dirInodeLock)
      | (True, h3) \<Rightarrow>
     (case do_Access e h3 dirInodeNumber userID groupID otherGroupIDs (X_OK e) of
        (False, h4) \<Rightarrow>
          ((0, Some (Blunder PermDeniedError ''EACCES'')), do_Unlock h4 dirInodeLock)
      | (True, h4) \<Rightarrow>
     (case do_Lookup e h4 dirInodeNumber basename of
        (r, h5) \<Rightarrow>
          ((case r of Inl err \<Rightarrow> (0, Some err) | Inr inodeNumber \<Rightarrow> (inodeNumber, None)),
           do_Unlock (h5 @ [C_stats ''FsLookupOps'']) dirInodeLock))))))"

subsection \<open>Rename\<close>

text \<open>
  The part of \<open>Rename\<close> from the label \<open>retryLock\<close> on; \<open>goto retryLock\<close> is the recursive
  call. The loop has no bound, so the value \<open>None\<close> is a call that does not return.
  The source has no \<open>defer\<close> here: a lock is released where an \<open>Unlock()\<close> is written.
\<close>

partial_function (option) Rename_retryLock ::
  "env \<Rightarrow> call list \<Rightarrow> InodeUserID \<Rightarrow> InodeGroupID \<Rightarrow> InodeGroupID list \<Rightarrow> InodeNumber
     \<Rightarrow> string \<Rightarrow> InodeNumber \<Rightarrow> string \<Rightarrow> RWLockStruct \<Rightarrow> RWLockStruct
     \<Rightarrow> (error option \<times> call list) option" where
  "Rename_retryLock e h userID groupID otherGroupIDs srcDirInodeNumber srcBasename
       dstDirInodeNumber dstBasename srcDirLock dstDirLock =
     (let srcAndDestDirsAreSame = (srcDirInodeNumber = dstDirInodeNumber) in
      case do_WriteLock e h srcDirLock of
        (Some err, h1) \<Rightarrow> Some (Some err, h1)
      | (None, h1) \<Rightarrow>
     (case do_Access e h1 srcDirInodeNumber userID groupID otherGroupIDs (F_OK e) of
        (ok, h2) \<Rightarrow>
          if \<not> ok then Some (Some (Blunder NotFoundError ''ENOENT''), h2) else
     (case do_Access e h2 srcDirInodeNumber userID groupID otherGroupIDs (W_OK e OR X_OK e) of
        (ok, h3) \<Rightarrow>
          if \<not> ok then Some (Some (Blunder PermDeniedError ''EACCES''), h3) else
          if \<not> srcAndDestDirsAreSame then
            (case do_TryWriteLock e h3 dstDirLock of
               (err, h4) \<Rightarrow>
                 if blunder_Is err TryAgainError then
                   Rename_retryLock e (do_Unlock h4 srcDirLock) userID groupID otherGroupIDs
                     srcDirInodeNumber srcBasename dstDirInodeNumber dstBasename
                     srcDirLock dstDirLock
                 else if blunder_IsNotSuccess err then
                   Some (err, do_Unlock h4 srcDirLock)
                 else
                   (case do_Access e h4 dstDirInodeNumber userID groupID otherGroupIDs (F_OK e) of
                      (ok, h5) \<Rightarrow>
                        if \<not> ok
                        then Some (Some (Blunder NotFoundError ''ENOENT''), do_Unlock h5 srcDirLock)
                        else
                   (case do_Access e h5 dstDirInodeNumber userID groupID otherGroupIDs
                           (W_OK e OR X_OK e) of
                      (ok, h6) \<Rightarrow>
                        if \<not> ok
                        then Some (Some (Blunder PermDeniedError ''EACCES''), do_Unlock h6 srcDirLock)
                        else
                   (case do_Move e h6 srcDirInodeNumber srcBasename dstDirInodeNumber dstBasename of
                      (err, h7) \<Rightarrow>
                        Some (err, do_Unlock (do_Unlock h7 dstDirLock) srcDirLock
                                     @ [C_stats ''FsRenameOps''])))))
          else
            (case do_Move e h3 srcDirInodeNumber srcBasename dstDirInodeNumber dstBasename of
               (err, h7) \<Rightarrow> Some (err, do_Unlock h7 srcDirLock @ [C_stats ''FsRenameOps''])))))"

definition Rename ::
  "env \<Rightarrow> call list \<Rightarrow> InodeUserID \<Rightarrow> InodeGroupID \<Rightarrow> InodeGroupID list \<Rightarrow> InodeNumber
     \<Rightarrow> string \<Rightarrow> InodeNumber \<Rightarrow> string \<Rightarrow> (error option \<times> call list) option" where
  "Rename e h userID groupID otherGroupIDs srcDirInodeNumber srcBasename
       dstDirInodeNumber dstBasename =
     (case do_GenerateCallerID e h of
        (callerID, h1) \<Rightarrow>
     (case do_initInodeLock e h1 srcDirInodeNumber (Some callerID) of
        (Inl err, h2) \<Rightarrow> Some (Some err, h2)
      | (Inr srcDirLock, h2) \<Rightarrow>
     (case do_initInodeLock e h2 dstDirInodeNumber (Some callerID) of
        (Inl err, h3) \<Rightarrow> Some (Some err, h3)
      | (Inr dstDirLock, h3) \<Rightarrow>
          Rename_retryLock e h3 userID groupID otherGroupIDs srcDirInodeNumber srcBasename
            dstDirInodeNumber dstBasename srcDirLock dstDirLock)))"

subsection \<open>MiddlewarePost\<close>

text \<open>
  A deferred \<open>Unlock()\<close> on a lock handle that is \<open>nil\<close> panics when the function returns.
\<close>

definition deferred_Unlock ::
  "RWLockStruct option \<Rightarrow> 'a \<times> call list \<Rightarrow> panic + ('a \<times> call list)" where
  "deferred_Unlock lock r =
     (case lock of
        None \<Rightarrow> Inl NilElement
      | Some l \<Rightarrow> Inr (fst r, do_Unlock (snd r) l))"

definition MiddlewarePost ::
  "env \<Rightarrow> call list \<Rightarrow> string \<Rightarrow> string \<Rightarrow> bytes \<Rightarrow> bytes
     \<Rightarrow> panic + (error option \<times> call list)" where
  "MiddlewarePost e h parentDir baseName newMetaData oldMetaData =
     (let fullPathName = parentDir @ ''/'' @ baseName in
      case do_resolvePathForWrite e h fullPathName None of
        (Inl err, h1) \<Rightarrow> Inr (Some err, h1)
      | (Inr (baseNameInodeNumber, _, baseInodeLock), h1) \<Rightarrow>
          deferred_Unlock baseInodeLock
            (case do_GetStream e h1 baseNameInodeNumber MiddlewareStream of
               (r, h2) \<Rightarrow>
                 (let err = (case r of Inl x \<Rightarrow> Some x | Inr _ \<Rightarrow> None);
                      existingStreamData = (case r of Inl _ \<Rightarrow> [] | Inr d \<Rightarrow> d)
                  in if err \<noteq> None \<and> blunder_IsNot err StreamNotFound then (err, h2)
                     else if err = None \<and> \<not> (existingStreamData = oldMetaData)
                     then (Some (Blunder TryAgainError ''MetaData different''), h2)
                     else (case do_PutStream e h2 baseNameInodeNumber MiddlewareStream newMetaData of
                             (err', h3) \<Rightarrow> (err', h3 @ [C_stats ''FsMwPostOps''])))))"

subsection \<open>Flock\<close>

text \<open>
  Modelled from the spec: \<open>FlockStruct\<close> is declared in \<open>fs/api.go\<close>; the record has the fields
  of the byte-range lock record of section 3, with the types the source uses them at.
  The \<open>syscall\<close> constants are those of Linux.
\<close>

record FlockStruct =
  Type :: "32 word"
  Start :: "64 word"
  Len :: "64 word"
  Pid :: "64 word"

definition F_RDLCK :: "32 word" where "F_RDLCK = 0"
definition F_WRLCK :: "32 word" where "F_WRLCK = 1"
definition F_UNLCK :: "32 word" where "F_UNLCK = 2"
definition F_SETLK :: "32 word" where "F_SETLK = 6"
definition F_SETLKW :: "32 word" where "F_SETLKW = 7"

text \<open>\<open>lockEnd\<close> and \<open>elmEnd\<close>: \<open>^uint64(0)\<close> for length 0, else the wrapping sum.\<close>

definition flockEnd :: "FlockStruct \<Rightarrow> 64 word" where
  "flockEnd f = (if Len f = 0 then - 1 else Start f + Len f)"

text \<open>
  The unlock request: the first element with the same \<open>Pid\<close>, \<open>Start\<close> and \<open>Len\<close> is removed;
  \<open>None\<close> when there is none.
\<close>

fun flock_remove :: "FlockStruct list \<Rightarrow> FlockStruct \<Rightarrow> FlockStruct list option" where
  "flock_remove [] inF = None"
| "flock_remove (elm # rest) inF =
     (if Pid elm = Pid inF \<and> Start elm = Start inF \<and> Len elm = Len inF then Some rest
      else map_option ((#) elm) (flock_remove rest inF))"

text \<open>
  The loop over the list for a lock request. \<open>i\<close> is the position of the element at hand,
  \<open>insertElm\<close> the position of the element remembered for the insertion (\<open>nil\<close> is \<open>None\<close>).
  The loop ends in one of the three \<open>return\<close>s of its body or at the end of the list.
\<close>

datatype scan =
    Scan_beyond "nat option"
  | Scan_identical FlockStruct
  | Scan_conflict FlockStruct
  | Scan_end "nat option"

fun flock_scan :: "FlockStruct \<Rightarrow> FlockStruct list \<Rightarrow> nat \<Rightarrow> nat option \<Rightarrow> scan" where
  "flock_scan inF [] i insertElm = Scan_end insertElm"
| "flock_scan inF (elm # rest) i insertElm =
     (let lockEnd = flockEnd inF;
          elmEnd = flockEnd elm
      in if elmEnd < Start inF then flock_scan inF rest (i + 1) insertElm
         else
           (let insertElm' = (if insertElm = None \<and> Start elm \<ge> Start inF then Some i
                              else insertElm)
            in if Start elm > lockEnd then Scan_beyond insertElm'
               else if elm = inF then Scan_identical elm
               else if Type elm = F_WRLCK \<or> Type inF = F_WRLCK then Scan_conflict elm
               else flock_scan inF rest (i + 1) insertElm'))"

definition insert_before :: "'a list \<Rightarrow> nat \<Rightarrow> 'a \<Rightarrow> 'a list" where
  "insert_before l i x = take i l @ x # drop i l"

text \<open>
  Lines 233 to 306 of \<open>Flock\<close>, on the lock list of the inode. The result is
  \<open>(outFlockStruct, err)\<close>, the list afterwards, and whether \<open>stats.FsFlockOps\<close> was
  counted. \<open>InsertBefore\<close> with a \<open>nil\<close> mark dereferences the mark: a panic.
\<close>

definition flock_setlk ::
  "FlockStruct list \<Rightarrow> FlockStruct
     \<Rightarrow> panic + ((FlockStruct option \<times> error option) \<times> FlockStruct list \<times> bool)" where
  "flock_setlk l inF =
     (if Type inF = F_UNLCK then
        (case flock_remove l inF of
           Some l' \<Rightarrow> Inr ((None, None), l', False)
         | None \<Rightarrow> Inr ((None, Some (Blunder NoDataError [])), l, False))
      else
        (case flock_scan inF l 0 None of
           Scan_beyond None \<Rightarrow> Inl NilElement
         | Scan_beyond (Some i) \<Rightarrow> Inr ((Some inF, None), insert_before l i inF, False)
         | Scan_identical elm \<Rightarrow> Inr ((Some elm, None), l, False)
         | Scan_conflict elm \<Rightarrow> Inr ((Some elm, Some (Blunder TryAgainError [])), l, False)
         | Scan_end insertElm \<Rightarrow>
             Inr ((Some inF, None),
                  (case insertElm of Some i \<Rightarrow> insert_before l i inF | None \<Rightarrow> l @ [inF]),
                  True)))"

text \<open>
  The specification's words on byte-range locks, for the comparison with the source: a
  range runs from its start to its end, the end being \<open>MAX_UINT64\<close> for length 0 and
  start plus length otherwise; a lock whose end is below the start of another is clear of
  it; a request conflicts with a lock that is not identical to it, overlaps it, and is a
  write lock or meets a write request.
\<close>

definition spec_end :: "FlockStruct \<Rightarrow> nat" where
  "spec_end f = (if Len f = 0 then 2 ^ 64 - 1 else unat (Start f) + unat (Len f))"

definition spec_overlap :: "FlockStruct \<Rightarrow> FlockStruct \<Rightarrow> bool" where
  "spec_overlap a b = (\<not> spec_end a < unat (Start b) \<and> \<not> spec_end b < unat (Start a))"

definition spec_conflict :: "FlockStruct \<Rightarrow> FlockStruct \<Rightarrow> bool" where
  "spec_conflict elm inF =
     (elm \<noteq> inF \<and> spec_overlap elm inF \<and> (Type elm = F_WRLCK \<or> Type inF = F_WRLCK))"

text \<open>
  A range is representable when its end does not pass \<open>MAX_UINT64\<close>. A lock list is well
  formed when its ranges are representable, it is ordered by start, and no two of its
  locks overlap with a write lock among them.
\<close>

definition representable :: "FlockStruct \<Rightarrow> bool" where
  "representable f = (spec_end f < 2 ^ 64)"

definition compatible :: "FlockStruct \<Rightarrow> FlockStruct \<Rightarrow> bool" where
  "compatible a b = (\<not> (spec_overlap a b \<and> (Type a = F_WRLCK \<or> Type b = F_WRLCK)))"

definition flock_wf :: "FlockStruct list \<Rightarrow> bool" where
  "flock_wf l =
     (list_all representable l
      \<and> sorted_wrt (\<lambda>a b. Start a \<le> Start b) l
      \<and> sorted_wrt compatible l)"

text \<open>
  \<open>getFileLockList\<close>: the lock list of the inode in the volume's \<open>FLockMap\<close>, made on first
  use. \<open>vol\<close> is the entry of \<open>globals.volumeMap\<close> for the mounted volume (\<open>None\<close>: no entry).
\<close>

type_synonym FLockMap = "InodeNumber \<rightharpoonup> FlockStruct list"

definition getFileLockList ::
  "FLockMap option \<Rightarrow> InodeNumber \<Rightarrow> (error + FlockStruct list) \<times> FLockMap option" where
  "getFileLockList vol inodeNumber =
     (case vol of
        None \<Rightarrow> (Inl (Blunder BadMountVolumeError ''volume not found in globals.volumeMap''), None)
      | Some m \<Rightarrow>
          (case m inodeNumber of
             None \<Rightarrow> (Inr [], Some (m(inodeNumber \<mapsto> [])))
           | Some fLocklist \<Rightarrow> (Inr fLocklist, Some m)))"

text \<open>
  \<open>Flock\<close>. \<open>inFlockStruct\<close> is a pointer: \<open>None\<close> is \<open>nil\<close>, and reading its \<open>Type\<close> panics.
\<close>

definition Flock ::
  "env \<Rightarrow> call list \<Rightarrow> FLockMap option \<Rightarrow> InodeUserID \<Rightarrow> InodeGroupID \<Rightarrow> InodeGroupID list
     \<Rightarrow> InodeNumber \<Rightarrow> 32 word \<Rightarrow> FlockStruct option
     \<Rightarrow> panic + ((FlockStruct option \<times> error option) \<times> call list \<times> FLockMap option)" where
  "Flock e h vol userID groupID otherGroupIDs inodeNumber lockCmd inFlockStruct =
     (if lockCmd = F_SETLKW then Inr ((None, Some (Blunder NotSupportedError [])), h, vol)
      else
     (case do_initInodeLock e h inodeNumber None of
        (Inl err, h1) \<Rightarrow> Inr ((None, Some err), h1, vol)
      | (Inr inodeLock, h1) \<Rightarrow>
     (case do_ReadLock e h1 inodeLock of
        (Some err, h2) \<Rightarrow> Inr ((None, Some err), h2, vol)
      | (None, h2) \<Rightarrow>
     (case do_Access e h2 inodeNumber userID groupID otherGroupIDs (F_OK e) of
        (False, h3) \<Rightarrow>
          Inr ((None, Some (Blunder NotFoundError ''ENOENT'')), do_Unlock h3 inodeLock, vol)
      | (True, h3) \<Rightarrow>
     (case do_Access e h3 inodeNumber userID groupID otherGroupIDs (R_OK e) of
        (False, h4) \<Rightarrow>
          Inr ((None, Some (Blunder PermDeniedError ''EACCES'')), do_Unlock h4 inodeLock, vol)
      | (True, h4) \<Rightarrow>
     (case getFileLockList vol inodeNumber of
        (Inl err, vol1) \<Rightarrow> Inr ((None, Some err), do_Unlock h4 inodeLock, vol1)
      | (Inr flockList, vol1) \<Rightarrow>
     (case inFlockStruct of
        None \<Rightarrow> Inl NilElement
      | Some inF \<Rightarrow>
     (case flock_setlk flockList inF of
        Inl p \<Rightarrow> Inl p
      | Inr (r, flockList', counted) \<Rightarrow>
          Inr (r,
               do_Unlock (if counted then h4 @ [C_stats ''FsFlockOps''] else h4) inodeLock,
               map_option (\<lambda>m. m(inodeNumber \<mapsto> flockList')) vol1)))))))))"

subsection \<open>MiddlewareCoalesce\<close>

text \<open>
  \<open>filepath.Split\<close> (on Unix): the path up to and with its last slash, and the rest.
\<close>

definition filepath_Split :: "string \<Rightarrow> string \<times> string" where
  "filepath_Split path =
     (let file = rev (takeWhile (\<lambda>c. c \<noteq> CHR ''/'') (rev path))
      in (take (length path - length file) path, file))"

record dirAndFileName =
  dirName :: string
  fileName :: string

text \<open>The first loop of \<open>MiddlewareCoalesce\<close>, over \<open>elementPaths\<close>.\<close>

fun coalesce_split ::
  "string list \<Rightarrow> dirAndFileName list \<Rightarrow> error + dirAndFileName list" where
  "coalesce_split [] elementDirAndFileNames = Inr elementDirAndFileNames"
| "coalesce_split (path # paths) elementDirAndFileNames =
     (case filepath_Split path of
        (dir, file) \<Rightarrow>
          if dir = ''''
          then Inl (Plain ''Files to coalesce must not be in the root directory'')
          else coalesce_split paths
                 (elementDirAndFileNames
                    @ [\<lparr>dirName = take (length dir - 1) dir, fileName = file\<rparr>]))"

text \<open>The deferred function: every lock of \<open>heldLocks\<close> that is not \<open>nil\<close> is released.\<close>

fun unlock_all :: "call list \<Rightarrow> RWLockStruct option list \<Rightarrow> call list" where
  "unlock_all h [] = h"
| "unlock_all h (None # locks) = unlock_all h locks"
| "unlock_all h (Some l # locks) = unlock_all (do_Unlock h l) locks"

text \<open>
  The second loop, over the split element paths. An error in the first component is a
  \<open>return\<close> from the function.
\<close>

fun coalesce_elements ::
  "env \<Rightarrow> call list \<Rightarrow> CallerID \<Rightarrow> dirAndFileName list \<Rightarrow> RWLockStruct option list
     \<Rightarrow> CoalesceElement list
     \<Rightarrow> error option \<times> call list \<times> RWLockStruct option list \<times> CoalesceElement list" where
  "coalesce_elements e h callerID [] heldLocks coalesceElements =
     (None, h, heldLocks, coalesceElements)"
| "coalesce_elements e h callerID (entry # entries) heldLocks coalesceElements =
     (case do_resolvePathForWrite e h (dirName entry) (Some callerID) of
        (Inl err1, h1) \<Rightarrow> (Some err1, h1, heldLocks, coalesceElements)
      | (Inr (dirInodeNumber, dirInodeType, dirInodeLock), h1) \<Rightarrow>
     (let heldLocks1 = (if dirInodeLock \<noteq> None then heldLocks @ [dirInodeLock] else heldLocks) in
      if dirInodeType \<noteq> DirType
      then (Some (Blunder NotDirError ''not a directory''), h1, heldLocks1, coalesceElements)
      else
     (case do_Lookup e h1 dirInodeNumber (fileName entry) of
        (Inl err1, h2) \<Rightarrow> (Some err1, h2, heldLocks1, coalesceElements)
      | (Inr fileInodeNumber, h2) \<Rightarrow>
     (case do_initInodeLock e h2 fileInodeNumber (Some callerID) of
        (Inl err1, h3) \<Rightarrow> (Some err1, h3, heldLocks1, coalesceElements)
      | (Inr fileInodeLock, h3) \<Rightarrow>
     (case do_IsWriteHeld e h3 fileInodeLock of
        (isHeld, h4) \<Rightarrow>
     (case (if \<not> isHeld then do_WriteLock e h4 fileInodeLock else (None, h4)) of
        (Some err, h5) \<Rightarrow> (Some err, h5, heldLocks1, coalesceElements)
      | (None, h5) \<Rightarrow>
     (let heldLocks2 = (if \<not> isHeld then heldLocks1 @ [Some fileInodeLock] else heldLocks1) in
      case do_GetMetadata e h5 fileInodeNumber of
        (Inl err1, h6) \<Rightarrow> (Some err1, h6, heldLocks2, coalesceElements)
      | (Inr fileMetadata, h6) \<Rightarrow>
          if MetaInodeType fileMetadata \<noteq> FileType
          then (Some (Blunder NotFileError ''not an ordinary file''), h6, heldLocks2,
                coalesceElements)
          else coalesce_elements e h6 callerID entries heldLocks2
                 (coalesceElements
                    @ [\<lparr>ContainingDirectoryInodeNumber = dirInodeNumber,
                        ElementInodeNumber = fileInodeNumber,
                        ElementName = fileName entry\<rparr>]))))))))"

text \<open>\<open>MiddlewareCoalesce\<close> returns \<open>(ino, numWrites, modificationTime, err)\<close>.\<close>

definition MiddlewareCoalesce ::
  "env \<Rightarrow> call list \<Rightarrow> string \<Rightarrow> string list
     \<Rightarrow> (64 word \<times> 64 word \<times> 64 word \<times> error option) \<times> call list" where
  "MiddlewareCoalesce e h destPath elementPaths =
     (case coalesce_split elementPaths [] of
        Inl err \<Rightarrow> ((0, 0, 0, Some err), unlock_all h [])
      | Inr elementDirAndFileNames \<Rightarrow>
     (case filepath_Split destPath of
        (destDir, destFileName) \<Rightarrow>
          if destDir = ''''
          then ((0, 0, 0, Some (Plain ''Coalesce target must not be in the root directory'')),
                unlock_all h [])
          else
     (let destDirName = take (length destDir - 1) destDir in
      case do_GenerateCallerID e h of
        (callerID, h1) \<Rightarrow>
     (case do_getWriteLock e h1 (RootDirInodeNumber e) (Some callerID) of
        (Inl err, h2) \<Rightarrow> ((0, 0, 0, Some err), unlock_all h2 [])
      | (Inr rootDirInodeLock, h2) \<Rightarrow>
     (let heldLocks = [Some rootDirInodeLock] in
      case do_resolvePathForWrite e h2 destDirName (Some callerID) of
        (Inl err, h3) \<Rightarrow> ((0, 0, 0, Some err), unlock_all h3 heldLocks)
      | (Inr (destDirInodeNumber, destDirInodeType, destDirInodeLock), h3) \<Rightarrow>
     (let heldLocks1 = heldLocks @ [destDirInodeLock] in
      if destDirInodeType \<noteq> DirType
      then ((0, 0, 0, Some (Blunder NotDirError ''not a directory'')), unlock_all h3 heldLocks1)
      else
     (case coalesce_elements e h3 callerID elementDirAndFileNames heldLocks1 [] of
        (Some err, h4, heldLocks2, _) \<Rightarrow> ((0, 0, 0, Some err), unlock_all h4 heldLocks2)
      | (None, h4, heldLocks2, coalesceElements) \<Rightarrow>
     (case do_Coalesce e h4 destDirInodeNumber destFileName coalesceElements of
        (((destInodeNumber, mtime, numWrites), err), h5) \<Rightarrow>
          ((destInodeNumber, numWrites, mtime, err), unlock_all h5 heldLocks2)))))))))"

subsection \<open>MiddlewarePutComplete\<close>

definition strings_TrimPrefix :: "string \<Rightarrow> string \<Rightarrow> string" where
  "strings_TrimPrefix s p = (if take (length p) s = p then drop (length p) s else s)"

definition strings_HasPrefix :: "string \<Rightarrow> string \<Rightarrow> bool" where
  "strings_HasPrefix s p = (take (length p) s = p)"

text \<open>\<open>strings.Split(s, "/")\<close>: the pieces between the slashes, at least one.\<close>

fun split_slash :: "string \<Rightarrow> string list" where
  "split_slash [] = [[]]"
| "split_slash (c # cs) =
     (if c = CHR ''/'' then [] # split_slash cs
      else (case split_slash cs of
              [] \<Rightarrow> [[c]]
            | w # ws \<Rightarrow> (c # w) # ws))"

definition revSplitPath :: "env \<Rightarrow> string \<Rightarrow> string list" where
  "revSplitPath e fullpath =
     (let trimmed = strings_TrimPrefix fullpath ''/'' in
      if trimmed = '''' then []
      else rev (split_slash (path_Clean e trimmed)))"

text \<open>
  The method \<open>removeObstacleToObjectPut\<close>; a file type that is none of the three leaves the
  entry alone.
\<close>

definition removeObstacleToObjectPut ::
  "env \<Rightarrow> call list \<Rightarrow> CallerID \<Rightarrow> InodeNumber \<Rightarrow> string \<Rightarrow> InodeNumber
     \<Rightarrow> error option \<times> call list" where
  "removeObstacleToObjectPut e h callerID dirInodeNumber obstacleName obstacleInodeNumber =
     (case do_getstatHelper e h obstacleInodeNumber callerID of
        (Inl err, h1) \<Rightarrow> (Some err, h1)
      | (Inr statResult, h1) \<Rightarrow>
          (let fileType = StatFType statResult in
           if fileType = FileType \<or> fileType = SymlinkType
           then do_Unlink e h1 dirInodeNumber obstacleName
           else if fileType = DirType
           then (case do_NumDirEntries e h1 obstacleInodeNumber of
                   (Inl err, h2) \<Rightarrow> (Some err, h2)
                 | (Inr numEntries, h2) \<Rightarrow>
                     if numEntries \<ge> 3
                     then (Some (Blunder IsDirError ''non-empty directory''), h2)
                     else do_Unlink e h2 dirInodeNumber obstacleName)
           else (None, h1)))"

text \<open>
  The walk down the existing directories. \<open>dirs\<close> is used from its end. The loop leaves by
  a \<open>return\<close> (\<open>Walk_return\<close>, with the error and the two locks the deferred function will
  see) or by its condition or \<open>break\<close> (\<open>Walk_exit\<close>). After an error of \<open>Lookup\<close> other than
  \<open>NotFoundError\<close> the source sets \<open>err\<close> and goes round again; nothing bounds the number
  of rounds or of symlinks followed, so \<open>None\<close> is a walk that does not end.
\<close>

datatype walk =
    Walk_return error "RWLockStruct option" "RWLockStruct option" "call list"
  | Walk_exit "string list" InodeNumber RWLockStruct "RWLockStruct option" "call list"

partial_function (option) putComplete_walk ::
  "env \<Rightarrow> CallerID \<Rightarrow> call list \<Rightarrow> string list \<Rightarrow> InodeNumber \<Rightarrow> RWLockStruct
     \<Rightarrow> RWLockStruct option \<Rightarrow> walk option" where
  "putComplete_walk e callerID h dirs dirInodeNumber dirInodeLock dirEntInodeLock =
     (if \<not> length dirs > 0
      then Some (Walk_exit dirs dirInodeNumber dirInodeLock dirEntInodeLock h)
      else
     (let thisDir = last dirs in
      if thisDir = ''.''
      then putComplete_walk e callerID h (butlast dirs) dirInodeNumber dirInodeLock
             dirEntInodeLock
      else
     (case do_Lookup e h dirInodeNumber thisDir of
        (Inl err1, h1) \<Rightarrow>
          if blunder_Is (Some err1) NotFoundError
          then Some (Walk_exit dirs dirInodeNumber dirInodeLock dirEntInodeLock h1)
          else putComplete_walk e callerID h1 dirs dirInodeNumber dirInodeLock dirEntInodeLock
      | (Inr dirEntInodeNumber, h1) \<Rightarrow>
     (let dirs1 = butlast dirs in
      case do_getWriteLock e h1 dirEntInodeNumber (Some callerID) of
        (Inl err1, h2) \<Rightarrow> Some (Walk_return err1 (Some dirInodeLock) None h2)
      | (Inr entLock, h2) \<Rightarrow>
     (case do_GetType e h2 dirEntInodeNumber of
        (Inl err1, h3) \<Rightarrow> Some (Walk_return err1 (Some dirInodeLock) (Some entLock) h3)
      | (Inr dirEntInodeType, h3) \<Rightarrow>
          if dirEntInodeType = FileType
          then Some (Walk_return (Blunder NotDirError ''is a file, not a directory'')
                       (Some dirInodeLock) (Some entLock) h3)
          else if dirEntInodeType = SymlinkType
          then
            (case do_GetSymlink e h3 dirEntInodeNumber of
               (r, h4) \<Rightarrow>
                 (let h5 = do_Unlock h4 entLock in
                  case r of
                    Inl err1 \<Rightarrow> Some (Walk_return err1 (Some dirInodeLock) None h5)
                  | Inr target \<Rightarrow>
                      if strings_HasPrefix target ''/''
                      then
                        (case do_getWriteLock e (do_Unlock h5 dirInodeLock)
                                (RootDirInodeNumber e) None of
                           (Inl err1, h6) \<Rightarrow> Some (Walk_return err1 None None h6)
                         | (Inr rootLock, h6) \<Rightarrow>
                             putComplete_walk e callerID h6 (dirs1 @ revSplitPath e target)
                               (RootDirInodeNumber e) rootLock None)
                      else putComplete_walk e callerID h5 (dirs1 @ revSplitPath e target)
                             dirInodeNumber dirInodeLock None))
          else putComplete_walk e callerID (do_Unlock h3 dirInodeLock) dirs1
                 dirEntInodeNumber entLock None)))))"

text \<open>
  The loop over the log segments; \<open>pObjectLengths[i]\<close> panics when the lengths run out.
\<close>

fun putComplete_wrote ::
  "env \<Rightarrow> call list \<Rightarrow> InodeNumber \<Rightarrow> 64 word \<Rightarrow> string list \<Rightarrow> 64 word list \<Rightarrow> bool
     \<Rightarrow> panic + (error option \<times> call list)" where
  "putComplete_wrote e h fileInodeNumber fileOffset [] lens notFirst = Inr (None, h)"
| "putComplete_wrote e h fileInodeNumber fileOffset (p # ps) [] notFirst = Inl IndexOutOfRange"
| "putComplete_wrote e h fileInodeNumber fileOffset (p # ps) (l # ls) notFirst =
     (case do_Wrote e h fileInodeNumber fileOffset p 0 l notFirst of
        (Some err, h1) \<Rightarrow> Inr (Some err, h1 @ [C_logger ''DebugfIDWithError''])
      | (None, h1) \<Rightarrow> putComplete_wrote e h1 fileInodeNumber (fileOffset + l) ps ls True)"

text \<open>
  The loop that makes the missing directories, over \<open>dirs[i]\<close> for the indices from the
  one at hand on. The result has the error of a \<open>return\<close>, or the inode and name left to
  link.
\<close>

fun putComplete_mkdirs ::
  "env \<Rightarrow> call list \<Rightarrow> string list \<Rightarrow> InodeNumber \<Rightarrow> string
     \<Rightarrow> error option \<times> call list \<times> InodeNumber \<times> string" where
  "putComplete_mkdirs e h [] highestUnlinkedInodeNumber highestUnlinkedName =
     (None, h, highestUnlinkedInodeNumber, highestUnlinkedName)"
| "putComplete_mkdirs e h (d # ds) highestUnlinkedInodeNumber highestUnlinkedName =
     (case do_CreateDir e h (PosixModePerm e) 0 0 of
        (Inl err1, h1) \<Rightarrow>
          (Some err1, h1 @ [C_logger ''DebugfIDWithError''], highestUnlinkedInodeNumber,
           highestUnlinkedName)
      | (Inr newDirInodeNumber, h1) \<Rightarrow>
          (case do_Link e h1 newDirInodeNumber highestUnlinkedName highestUnlinkedInodeNumber of
             (Some err, h2) \<Rightarrow>
               (Some err, h2 @ [C_logger ''DebugfIDWithError''], highestUnlinkedInodeNumber,
                highestUnlinkedName)
           | (None, h2) \<Rightarrow> putComplete_mkdirs e h2 ds newDirInodeNumber d))"

text \<open>
  Lines 1402 to 1476: the obstacle, the final link and the end of the function. The
  variable \<open>obstacleInodeNumber\<close> declared at line 1403 keeps its zero value: the short
  declaration at line 1405 makes a new variable of that name for the block of the \<open>if\<close>,
  which the call of \<open>removeObstacleToObjectPut\<close> in that block reads. The relink and the
  \<open>Destroy\<close> behind the block read the one of line 1403. The result is
  \<open>(mtime, fileInodeNumber, numWrites, err)\<close> and the record of calls before the deferred
  functions, together with the lock of the obstacle when its \<open>Unlock\<close> was deferred.
\<close>

definition putComplete_link ::
  "env \<Rightarrow> call list \<Rightarrow> CallerID \<Rightarrow> string list \<Rightarrow> InodeNumber \<Rightarrow> string \<Rightarrow> InodeNumber
     \<Rightarrow> string \<Rightarrow> InodeNumber
     \<Rightarrow> (64 word \<times> InodeNumber \<times> 64 word \<times> error option) \<times> call list \<times> RWLockStruct option"
  where
  "putComplete_link e h callerID dirs dirInodeNumber vObjectBaseName fileInodeNumber
       highestUnlinkedName highestUnlinkedInodeNumber =
     (let obstacleInodeNumber = (0 :: InodeNumber) in
      case
        (if 0 = length dirs then
           (case do_Lookup e h dirInodeNumber vObjectBaseName of
              (Inl err1, h1) \<Rightarrow>
                if blunder_Is (Some err1) NotFoundError then (None, False, h1, None)
                else (Some err1, False, h1, None)
            | (Inr obstacleInodeNumber', h1) \<Rightarrow>
                (case do_getWriteLock e h1 obstacleInodeNumber' (Some callerID) of
                   (Inl err1, h2) \<Rightarrow> (Some err1, True, h2, None)
                 | (Inr obstacleInodeLock, h2) \<Rightarrow>
                     (case removeObstacleToObjectPut e h2 callerID dirInodeNumber vObjectBaseName
                             obstacleInodeNumber' of
                        (err, h3) \<Rightarrow> (err, True, h3, Some obstacleInodeLock))))
         else (None, False, h, None))
      of
        (Some err, haveObstacle, h4, obstacleLock) \<Rightarrow>
          ((0, fileInodeNumber, 0, Some err), h4, obstacleLock)
      | (None, haveObstacle, h4, obstacleLock) \<Rightarrow>
     (case do_Link e h4 dirInodeNumber highestUnlinkedName highestUnlinkedInodeNumber of
        (Some err, h5) \<Rightarrow>
          (let h6 = h5 @ [C_logger ''ErrorfWithError''];
               h7 = (if haveObstacle
                     then snd (do_Link e h6 dirInodeNumber vObjectBaseName obstacleInodeNumber)
                            @ [C_logger ''ErrorfWithError'']
                     else h6)
           in ((0, fileInodeNumber, 0, Some err), h7, obstacleLock))
      | (None, h5) \<Rightarrow>
     (let h7 = (if haveObstacle
                then (case do_Destroy e h5 obstacleInodeNumber of
                        (destroyErr, h6) \<Rightarrow>
                          if destroyErr \<noteq> None then h6 @ [C_logger ''ErrorfWithError''] else h6)
                else h5)
      in case do_GetMetadata e h7 fileInodeNumber of
           (Inl err, h8) \<Rightarrow> ((0, fileInodeNumber, 0, Some err), h8, obstacleLock)
         | (Inr metadata, h8) \<Rightarrow>
             ((ModificationTime metadata, fileInodeNumber, NumWrites metadata, None),
              h8 @ [C_stats ''FsMwPutCompleteOps''], obstacleLock))))"

text \<open>
  The deferred functions of \<open>MiddlewarePutComplete\<close>, last registered first: the \<open>Unlock\<close> of
  the obstacle's lock, then the closure that releases \<open>dirInodeLock\<close> and
  \<open>dirEntInodeLock\<close> when they are not \<open>nil\<close>.
\<close>

definition putComplete_deferred ::
  "call list \<Rightarrow> RWLockStruct option \<Rightarrow> RWLockStruct option \<Rightarrow> RWLockStruct option
     \<Rightarrow> call list" where
  "putComplete_deferred h obstacleLock dirInodeLock dirEntInodeLock =
     unlock_all h [obstacleLock, dirInodeLock, dirEntInodeLock]"

definition MiddlewarePutComplete ::
  "env \<Rightarrow> call list \<Rightarrow> string \<Rightarrow> string \<Rightarrow> string list \<Rightarrow> 64 word list \<Rightarrow> bytes
     \<Rightarrow> (panic + ((64 word \<times> InodeNumber \<times> 64 word \<times> error option) \<times> call list)) option"
  where
  "MiddlewarePutComplete e h vContainerName vObjectPath pObjectPaths pObjectLengths
       pObjectMetadata =
     (case Lookup e h 0 0 [] (RootDirInodeNumber e) vContainerName of
        ((_, Some err), h1) \<Rightarrow> Some (Inr ((0, 0, 0, Some err), h1))
      | ((dirInodeNumber, None), h1) \<Rightarrow>
     (case revSplitPath e vObjectPath of
        [] \<Rightarrow> Some (Inl IndexOutOfRange)
      | vObjectBaseName # dirs \<Rightarrow>
     (case do_GenerateCallerID e h1 of
        (callerID, h2) \<Rightarrow>
     (case do_getWriteLock e h2 dirInodeNumber (Some callerID) of
        (Inl err, h3) \<Rightarrow> Some (Inr ((0, 0, 0, Some err), h3))
      | (Inr dirInodeLock0, h3) \<Rightarrow>
     (case putComplete_walk e callerID h3 dirs dirInodeNumber dirInodeLock0 None of
        None \<Rightarrow> None
      | Some (Walk_return err dl el h4) \<Rightarrow>
          Some (Inr ((0, 0, 0, Some err), putComplete_deferred h4 None dl el))
      | Some (Walk_exit dirs' dirInodeNumber' dirInodeLock dirEntInodeLock h4) \<Rightarrow>
     (case do_CreateFile e h4 (PosixModePerm e) 0 0 of
        (Inl err, h5) \<Rightarrow>
          Some (Inr ((0, 0, 0, Some err),
                     putComplete_deferred (h5 @ [C_logger ''DebugfIDWithError'']) None
                       (Some dirInodeLock) dirEntInodeLock))
      | (Inr fileInodeNumber, h5) \<Rightarrow>
     (case putComplete_wrote e h5 fileInodeNumber 0 pObjectPaths pObjectLengths False of
        Inl p \<Rightarrow> Some (Inl p)
      | Inr (Some err, h6) \<Rightarrow>
          Some (Inr ((0, fileInodeNumber, 0, Some err),
                     putComplete_deferred h6 None (Some dirInodeLock) dirEntInodeLock))
      | Inr (None, h6) \<Rightarrow>
     (case do_PutStream e h6 fileInodeNumber MiddlewareStream pObjectMetadata of
        (Some err, h7) \<Rightarrow>
          Some (Inr ((0, fileInodeNumber, 0, Some err),
                     putComplete_deferred (h7 @ [C_logger ''DebugfIDWithError'']) None
                       (Some dirInodeLock) dirEntInodeLock))
      | (None, h7) \<Rightarrow>
     (case putComplete_mkdirs e h7 dirs' fileInodeNumber vObjectBaseName of
        (Some err, h8, _, _) \<Rightarrow>
          Some (Inr ((0, fileInodeNumber, 0, Some err),
                     putComplete_deferred h8 None (Some dirInodeLock) dirEntInodeLock))
      | (None, h8, highestUnlinkedInodeNumber, highestUnlinkedName) \<Rightarrow>
     (case putComplete_link e h8 callerID dirs' dirInodeNumber' vObjectBaseName fileInodeNumber
             highestUnlinkedName highestUnlinkedInodeNumber of
        (r, h9, obstacleLock) \<Rightarrow>
          Some (Inr (r, putComplete_deferred h9 obstacleLock (Some dirInodeLock)
                          dirEntInodeLock))))))))))))"

text \<open>
  A collaborator for which every call succeeds: inode 7 is created, every name is found
  as inode 5, a file without a \<open>middleware\<close> stream, and every lock is granted.
\<close>

definition the_lock :: "InodeNumber \<Rightarrow> RWLockStruct" where
  "the_lock i = \<lparr>LockID = (if i = 1 then ''vol:1'' else if i = 2 then ''vol:2'' else ''vol:n''),
                 RWLockCallerID = 9\<rparr>"

definition quiet_env :: env where
  "quiet_env =
     \<lparr>RootDirInodeNumber = 1, F_OK = 0, R_OK = 4, W_OK = 2, X_OK = 1, PosixModePerm = 511,
      path_Clean = (\<lambda>p. p),
      Access_r = (\<lambda>h i u g gs m. True),
      CreateFile_r = (\<lambda>h m u g. Inr 7),
      CreateDir_r = (\<lambda>h m u g. Inr 8),
      Destroy_r = (\<lambda>h i. None),
      Link_r = (\<lambda>h d n i. None),
      Unlink_r = (\<lambda>h d n. None),
      Lookup_r = (\<lambda>h d n. Inr 5),
      Move_r = (\<lambda>h d n d' n'. None),
      GetType_r = (\<lambda>h i. Inr FileType),
      GetSymlink_r = (\<lambda>h i. Inr ''t''),
      GetStream_r = (\<lambda>h i n. Inl (Blunder StreamNotFound ''no stream'')),
      PutStream_r = (\<lambda>h i n b. None),
      GetMetadata_r = (\<lambda>h i. Inr \<lparr>MetaInodeType = FileType, ModificationTime = 0, NumWrites = 0\<rparr>),
      NumDirEntries_r = (\<lambda>h i. Inr 2),
      Wrote_r = (\<lambda>h i fo p po l a. None),
      Coalesce_r = (\<lambda>h d n es. ((7, 0, 0), None)),
      Validate_r = (\<lambda>h i. None),
      initInodeLock_r = (\<lambda>h i c. Inr (the_lock i)),
      getWriteLock_r = (\<lambda>h i c. Inr (the_lock i)),
      resolvePathForWrite_r = (\<lambda>h p c. Inr (5, FileType, Some (the_lock 5))),
      getstatHelper_r = (\<lambda>h i c. Inr \<lparr>StatFType = FileType\<rparr>),
      GenerateCallerID_r = (\<lambda>h. 9),
      ReadLock_r = (\<lambda>h l. None),
      WriteLock_r = (\<lambda>h l. None),
      TryWriteLock_r = (\<lambda>h l. None),
      IsWriteHeld_r = (\<lambda>h l. False)\<rparr>"

section \<open>Properties of the lock manager\<close>

lemmas llm_defs =
  commonLock_enqueue_def commonLock_wakeup_def unlock_def handle_def new_track_def
  processLocalQ_def grantAndSignal_def append_go_def fits_def cap_def elems_def
  nil_slice_def removeFromListOfOwners_def newcap_def Let_def

lemma elems_append_go: "len s \<le> cap s \<Longrightarrow> elems (append_go s ys) = elems s @ ys"
  by (simp add: append_go_def elems_def fits_def cap_def)

lemma unlock_unknown_lock_panics:
  "m (LockID l) = None \<Longrightarrow> unlock m l = Inl LockNotFoundInMap"
  by (simp add: unlock_def)

lemma unlock_never_reports_negative_owners: "unlock m l \<noteq> Inl OwnersNegative"
  by (auto simp: unlock_def Let_def split: option.splits prod.splits sum.splits if_splits)

text \<open>
  C1 (the track invariant after every acquire and release). The source does not keep it.
  Caller 1 takes the lock for writing, caller 2 queues for writing, caller 1 releases:
  the release leaves caller 1 in the owner list, the grant pass appends caller 2, and the
  track is Exclusive with two entries in its owner list and an owner count of 1.
\<close>

theorem release_leaves_caller_in_owner_list:
  "(case lockRun ''k'' Map.empty
           [Request 1 exclusive False, Wakeup 1, Request 2 exclusive False, Release 1] of
      Inl p \<Rightarrow> False
    | Inr m \<Rightarrow>
        (case m ''k'' of
           None \<Rightarrow> False
         | Some t \<Rightarrow> state t = exclusive \<and> elems (listOfOwners t) = [1, 2] \<and> owners t = 1))"
  by (simp add: llm_defs)

text \<open>
  C2 (the grant pass over the FIFO wait queue). With a write request at the head: when the
  state is Stale the request is granted, it alone is signalled, the state becomes Exclusive
  and the rest of the queue stays as it was; in every other state nothing changes and
  nobody is signalled, so the writer and all waiters behind it stay queued. With a read
  request at the head and the state Stale or Shared: the request is granted, the state
  becomes Shared, and the pass goes on with the rest of the queue.
\<close>

theorem processLocalQ_grant_pass:
  "waitReqQ t = r # rest \<Longrightarrow>
     (requestedState r = exclusive \<longrightarrow>
         (state t = stale \<longrightarrow>
            processLocalQ t
              = (fst (grantAndSignal (t\<lparr>waitReqQ := rest\<rparr>) r), [r\<lparr>wakeUp := True\<rparr>])
            \<and> state (fst (processLocalQ t)) = exclusive
            \<and> waitReqQ (fst (processLocalQ t)) = rest)
       \<and> (state t \<noteq> stale \<longrightarrow> processLocalQ t = (t, [])))
   \<and> (requestedState r = shared \<and> (state t = stale \<or> state t = shared) \<longrightarrow>
         state (fst (grantAndSignal (t\<lparr>waitReqQ := rest\<rparr>) r)) = shared
       \<and> processLocalQ t =
           (case processLocalQ (fst (grantAndSignal (t\<lparr>waitReqQ := rest\<rparr>) r)) of
              (t', rs) \<Rightarrow> (t', r\<lparr>wakeUp := True\<rparr> # rs)))"
  by (simp add: processLocalQ_def grantAndSignal_def split: prod.splits list.splits)

theorem processLocalQ_grant_pass_witness:
  "processLocalQ ((new_track ''k'')\<lparr>waitReqQ :=
       [\<lparr>requestedState = exclusive, wakeUp = False, LockCallerID = 1\<rparr>,
        \<lparr>requestedState = shared, wakeUp = False, LockCallerID = 2\<rparr>]\<rparr>)
     = ((new_track ''k'')\<lparr>state := exclusive, owners := 1,
           listOfOwners := \<lparr>arr = [1], len = 1\<rparr>,
           waitReqQ := [\<lparr>requestedState = shared, wakeUp = False, LockCallerID = 2\<rparr>]\<rparr>,
        [\<lparr>requestedState = exclusive, wakeUp = True, LockCallerID = 1\<rparr>])
   \<and> processLocalQ ((new_track ''k'')\<lparr>state := shared, waitReqQ :=
       [\<lparr>requestedState = exclusive, wakeUp = False, LockCallerID = 1\<rparr>,
        \<lparr>requestedState = shared, wakeUp = False, LockCallerID = 2\<rparr>]\<rparr>)
     = ((new_track ''k'')\<lparr>state := shared, waitReqQ :=
       [\<lparr>requestedState = exclusive, wakeUp = False, LockCallerID = 1\<rparr>,
        \<lparr>requestedState = shared, wakeUp = False, LockCallerID = 2\<rparr>]\<rparr>, [])
   \<and> processLocalQ ((new_track ''k'')\<lparr>waitReqQ :=
       [\<lparr>requestedState = shared, wakeUp = False, LockCallerID = 2\<rparr>]\<rparr>)
     = ((new_track ''k'')\<lparr>state := shared, owners := 1,
           listOfOwners := \<lparr>arr = [2], len = 1\<rparr>, waitReqQ := []\<rparr>,
        [\<lparr>requestedState = shared, wakeUp = True, LockCallerID = 2\<rparr>])"
  using
    processLocalQ_grant_pass [of "(new_track ''k'')\<lparr>waitReqQ :=
       [\<lparr>requestedState = exclusive, wakeUp = False, LockCallerID = 1\<rparr>,
        \<lparr>requestedState = shared, wakeUp = False, LockCallerID = 2\<rparr>]\<rparr>"
       "\<lparr>requestedState = exclusive, wakeUp = False, LockCallerID = 1\<rparr>"
       "[\<lparr>requestedState = shared, wakeUp = False, LockCallerID = 2\<rparr>]"]
    processLocalQ_grant_pass [of "(new_track ''k'')\<lparr>state := shared, waitReqQ :=
       [\<lparr>requestedState = exclusive, wakeUp = False, LockCallerID = 1\<rparr>,
        \<lparr>requestedState = shared, wakeUp = False, LockCallerID = 2\<rparr>]\<rparr>"
       "\<lparr>requestedState = exclusive, wakeUp = False, LockCallerID = 1\<rparr>"
       "[\<lparr>requestedState = shared, wakeUp = False, LockCallerID = 2\<rparr>]"]
    processLocalQ_grant_pass [of "(new_track ''k'')\<lparr>waitReqQ :=
       [\<lparr>requestedState = shared, wakeUp = False, LockCallerID = 2\<rparr>]\<rparr>"
       "\<lparr>requestedState = shared, wakeUp = False, LockCallerID = 2\<rparr>" "[]"]
  by (simp add: new_track_def grantAndSignal_def append_go_def fits_def cap_def elems_def
        nil_slice_def newcap_def processLocalQ_def)

text \<open>
  C9 (internal invariant violations abort). An unknown lock id does abort
  (\<open>unlock_unknown_lock_panics\<close>). A release at an owner count of 0 does not: the counter is
  unsigned, it is decremented before anything is checked, and the test for a negative count
  can never hold (\<open>unlock_never_reports_negative_owners\<close>). Caller 1 holds the lock, caller 2
  queues, caller 1 releases twice, caller 2 wakes up: the count is 0. Caller 2 then
  releases the lock it was granted: no panic, and the count is \<open>2^64 - 1\<close>.
\<close>

theorem unlock_wraps_owner_count:
  "(case lockRun ''k'' Map.empty
           [Request 1 exclusive False, Wakeup 1, Request 2 exclusive False,
            Release 1, Release 1, Wakeup 2] of
      Inl p \<Rightarrow> False
    | Inr m \<Rightarrow>
        map_option owners (m ''k'') = Some 0
        \<and> (case unlock m (handle ''k'' 2) of
             Inl p \<Rightarrow> False
           | Inr (m', t', sig) \<Rightarrow>
               owners t' = 18446744073709551615
               \<and> map_option owners (m' ''k'') = Some 18446744073709551615))"
  by (simp add: llm_defs)

section \<open>Properties of the filesystem layer\<close>

text \<open>
  C3 (\<open>Validate\<close> terminates and delegates to the inode collaborator). The source calls
  itself: for every collaborator, record of calls and inode number the call does not return,
  and the collaborator is never asked.
\<close>

theorem Validate_never_returns: "Validate e h inodeNumber = None"
proof -
  have "Validate e h inodeNumber = Some y \<Longrightarrow> False" for y
    by (rule Validate.raw_induct [where P = "\<lambda>_ _ _ _. False"])
       (auto simp: bind_eq_Some_conv split: prod.splits if_splits)
  then show ?thesis by (cases "Validate e h inodeNumber") auto
qed

text \<open>
  C6 (\<open>Create\<close> destroys the orphan). Let the basename be valid and \<open>CreateFile\<close> have made
  inode \<open>f\<close>. Then the error \<open>Create\<close> returns is the error of the first failing step among
  lock initialisation, lock acquisition, \<open>F_OK\<close> check, \<open>W_OK|X_OK\<close> check and link. When
  there is one, the inode number returned is 0, \<open>Destroy f\<close> is called exactly once, and a
  failure of that \<open>Destroy\<close> is logged. When there is none, \<open>f\<close> is returned and not
  destroyed. What \<open>Destroy\<close> answers never changes what \<open>Create\<close> returns.
\<close>

theorem Create_destroys_orphan:
  assumes v: "validateBaseName h basename = (None, h1)"
      and c: "do_CreateFile e h1 filePerm userID groupID = (Inr f, h2)"
      and r: "Create e h userID groupID otherGroupIDs dirInodeNumber basename filePerm
                = ((n, err), h')"
  shows "err = spec_Create_failing_step e h2 userID groupID otherGroupIDs dirInodeNumber basename f
    \<and> (err \<noteq> None \<longrightarrow>
          n = 0
        \<and> count_list (drop (length h2) h') (C_Destroy f) = 1
        \<and> (Destroy_r e (h2 @ takeWhile (\<lambda>c. c \<noteq> C_Destroy f) (drop (length h2) h')) f \<noteq> None
             \<longrightarrow> C_logger ''WarnfWithError'' \<in> set (drop (length h2) h')))
    \<and> (err = None \<longrightarrow> n = f \<and> C_Destroy f \<notin> set (drop (length h2) h'))
    \<and> fst (Create (e\<lparr>Destroy_r := d\<rparr>) h userID groupID otherGroupIDs dirInodeNumber
              basename filePerm) = (n, err)"
proof (cases "initInodeLock_r e h2 dirInodeNumber None")
  case (Inl a)
  with v c r show ?thesis
    by (auto simp: Create_def spec_Create_failing_step_def destroy_and_warn_def do_defs
             split: if_splits option.splits sum.splits)
next
  case (Inr lock)
  note l = this
  let ?h3 = "h2 @ [C_initInodeLock dirInodeNumber None]"
  show ?thesis
  proof (cases "WriteLock_r e ?h3 lock")
    case (Some a)
    with l v c r show ?thesis
      by (auto simp: Create_def spec_Create_failing_step_def destroy_and_warn_def do_defs
               split: if_splits option.splits sum.splits)
  next
    case None
    note w = this
    let ?h4 = "?h3 @ [C_WriteLock lock]"
    show ?thesis
    proof (cases "Access_r e ?h4 dirInodeNumber userID groupID otherGroupIDs (F_OK e)")
      case False
      with w l v c r show ?thesis
        by (auto simp: Create_def spec_Create_failing_step_def destroy_and_warn_def do_defs
                 split: if_splits option.splits sum.splits)
    next
      case True
      note a1 = this
      let ?h5 = "?h4 @ [C_Access dirInodeNumber userID groupID otherGroupIDs (F_OK e)]"
      show ?thesis
      proof (cases "Access_r e ?h5 dirInodeNumber userID groupID otherGroupIDs (W_OK e OR X_OK e)")
        case False
        with a1 w l v c r show ?thesis
          by (auto simp: Create_def spec_Create_failing_step_def destroy_and_warn_def do_defs
                   split: if_splits option.splits sum.splits)
      next
        case True
        note a2 = this
        let ?h6 = "?h5 @ [C_Access dirInodeNumber userID groupID otherGroupIDs (W_OK e OR X_OK e)]"
        show ?thesis
        proof (cases "Link_r e ?h6 dirInodeNumber basename f")
          case None
          with a2 a1 w l v c r show ?thesis
            by (auto simp: Create_def spec_Create_failing_step_def destroy_and_warn_def do_defs
                     split: if_splits option.splits sum.splits)
        next
          case (Some a)
          with a2 a1 w l v c r show ?thesis
            by (auto simp: Create_def spec_Create_failing_step_def destroy_and_warn_def do_defs
                     split: if_splits option.splits sum.splits)
        qed
      qed
    qed
  qed
qed

theorem Create_destroys_orphan_witness:
  "validateBaseName [] ''f'' = (None, [C_stats ''FsBasenameValidateOps''])
   \<and> do_CreateFile (quiet_env\<lparr>Link_r := (\<lambda>h d n i. Some (Blunder FileExistsError ''EEXIST'')),
                               Destroy_r := (\<lambda>h i. Some (Blunder IOError ''EIO''))\<rparr>)
        [C_stats ''FsBasenameValidateOps''] 420 0 0
       = (Inr 7, [C_stats ''FsBasenameValidateOps'', C_CreateFile 420 0 0])
   \<and> Create (quiet_env\<lparr>Link_r := (\<lambda>h d n i. Some (Blunder FileExistsError ''EEXIST'')),
                        Destroy_r := (\<lambda>h i. Some (Blunder IOError ''EIO''))\<rparr>)
        [] 0 0 [] 1 ''f'' 420
       = ((0, Some (Blunder FileExistsError ''EEXIST'')),
          [C_stats ''FsBasenameValidateOps'', C_CreateFile 420 0 0, C_initInodeLock 1 None,
           C_WriteLock (the_lock 1), C_Access 1 0 0 [] 0, C_Access 1 0 0 [] 3,
           C_Link 1 ''f'' 7, C_Destroy 7, C_logger ''WarnfWithError'', C_Unlock (the_lock 1)])
   \<and> spec_Create_failing_step
        (quiet_env\<lparr>Link_r := (\<lambda>h d n i. Some (Blunder FileExistsError ''EEXIST'')),
                   Destroy_r := (\<lambda>h i. Some (Blunder IOError ''EIO''))\<rparr>)
        [C_stats ''FsBasenameValidateOps'', C_CreateFile 420 0 0] 0 0 [] 1 ''f'' 7
       = Some (Blunder FileExistsError ''EEXIST'')"
  using Create_destroys_orphan
     [of "[]" "''f''" "[C_stats ''FsBasenameValidateOps'']"
         "quiet_env\<lparr>Link_r := (\<lambda>h d n i. Some (Blunder FileExistsError ''EEXIST'')),
                    Destroy_r := (\<lambda>h i. Some (Blunder IOError ''EIO''))\<rparr>"
         420 0 0 7 "[C_stats ''FsBasenameValidateOps'', C_CreateFile 420 0 0]"
         "[]" 1 0 "Some (Blunder FileExistsError ''EEXIST'')"
         "[C_stats ''FsBasenameValidateOps'', C_CreateFile 420 0 0, C_initInodeLock 1 None,
           C_WriteLock (the_lock 1), C_Access 1 0 0 [] 0, C_Access 1 0 0 [] 3,
           C_Link 1 ''f'' 7, C_Destroy 7, C_logger ''WarnfWithError'', C_Unlock (the_lock 1)]"]
  by (simp add: validateBaseName_def FileNameMax_def do_defs quiet_env_def Create_def
        destroy_and_warn_def)

text \<open>
  C5 (every lock acquired is released on every exit path; \<open>Rename\<close> releases the source
  directory's write lock when the access checks on the source directory fail). The source
  returns from both checks with the lock held: with a collaborator that denies \<open>F_OK\<close>, and
  with one that grants \<open>F_OK\<close> only, the record of calls has the \<open>WriteLock\<close> on the source
  directory and no \<open>Unlock\<close>.
\<close>

theorem Rename_leaks_source_lock: "Rename (quiet_env\<lparr>Access_r := (\<lambda>h i u g gs m. False)\<rparr>) [] 0 0 [] 1 ''a'' 2 ''b''
   = Some (Some (Blunder NotFoundError ''ENOENT''),
       [C_GenerateCallerID, C_initInodeLock 1 (Some 9), C_initInodeLock 2 (Some 9),
        C_WriteLock (the_lock 1), C_Access 1 0 0 [] 0])
  \<and> Rename (quiet_env\<lparr>Access_r := (\<lambda>h i u g gs m. m = 0)\<rparr>) [] 0 0 [] 1 ''a'' 2 ''b''
   = Some (Some (Blunder PermDeniedError ''EACCES''),
       [C_GenerateCallerID, C_initInodeLock 1 (Some 9), C_initInodeLock 2 (Some 9),
        C_WriteLock (the_lock 1), C_Access 1 0 0 [] 0, C_Access 1 0 0 [] 3])"
proof
  show "Rename (quiet_env\<lparr>Access_r := (\<lambda>h i u g gs m. False)\<rparr>) [] 0 0 [] 1 ''a'' 2 ''b''
   = Some (Some (Blunder NotFoundError ''ENOENT''),
       [C_GenerateCallerID, C_initInodeLock 1 (Some 9), C_initInodeLock 2 (Some 9),
        C_WriteLock (the_lock 1), C_Access 1 0 0 [] 0])"
    apply (simp add: Rename_def do_defs quiet_env_def)
    apply (subst Rename_retryLock.simps)
    apply (simp add: do_defs the_lock_def)
    done
  show "Rename (quiet_env\<lparr>Access_r := (\<lambda>h i u g gs m. m = 0)\<rparr>) [] 0 0 [] 1 ''a'' 2 ''b''
   = Some (Some (Blunder PermDeniedError ''EACCES''),
       [C_GenerateCallerID, C_initInodeLock 1 (Some 9), C_initInodeLock 2 (Some 9),
        C_WriteLock (the_lock 1), C_Access 1 0 0 [] 0, C_Access 1 0 0 [] 3])"
    apply (simp add: Rename_def do_defs quiet_env_def)
    apply (subst Rename_retryLock.simps)
    apply (simp add: do_defs the_lock_def)
    done
qed

text \<open>
  C8 (\<open>MiddlewarePost\<close> fails with \<open>TryAgain\<close> unless the stream equals \<open>oldMetaData\<close>, also
  when the stream is absent and \<open>oldMetaData\<close> is not empty). With a stream that differs the
  source does fail. With no \<open>middleware\<close> stream and \<open>oldMetaData = [1]\<close> it skips the
  comparison, writes \<open>newMetaData\<close> and returns success.
\<close>

lemma MiddlewarePost_TryAgain_on_different_stream: "MiddlewarePost (quiet_env\<lparr>GetStream_r := (\<lambda>h i n. Inr [3])\<rparr>) [] ''c'' ''o'' [2] [1]
   = Inr (Some (Blunder TryAgainError ''MetaData different''), [C_resolvePathForWrite ''c/o'' None, C_GetStream 5 ''middleware'',
                 C_Unlock (the_lock 5)])"
  by (simp add: MiddlewarePost_def deferred_Unlock_def do_defs quiet_env_def MiddlewareStream_def blunder_IsNot_def)

theorem MiddlewarePost_overwrites_absent_stream: "MiddlewarePost quiet_env [] ''c'' ''o'' [2] [1]
   = Inr (None, [C_resolvePathForWrite ''c/o'' None, C_GetStream 5 ''middleware'',
                 C_PutStream 5 ''middleware'' [2], C_stats ''FsMwPostOps'', C_Unlock (the_lock 5)])"
  by (simp add: MiddlewarePost_def deferred_Unlock_def do_defs quiet_env_def MiddlewareStream_def blunder_IsNot_def)

end
